theory Spec2Isabelle
  imports Complex_Main "HOL-Library.Monad_Syntax"
begin

section \<open>Dense matrices with checked sizes\<close>

text \<open>
  The filter in \<^verbatim>\<open>cubature_kalman_filter..hpp\<close> is written against Eigen's dynamic
  matrices (\<^verbatim>\<open>MatrixXt\<close>) and column vectors (\<^verbatim>\<open>VectorXt\<close>, an n-by-1 matrix; the source
  marks it as a column vector). The scalar type \<^verbatim>\<open>T\<close> is taken to be the reals, so the
  functions of the first sections compute in exact arithmetic. The section on rounding
  repeats the cubature point generator, the stored weights and the weighted mean with the
  rounding of the scalar type made explicit; the statement about the weighted mean of the
  generated points is made there.

  A matrix is the list of its rows. A column vector of size n is a list of n rows of
  length 1, a row vector is a single row. Eigen checks sizes and indices with assertions,
  as the source does itself in \<^verbatim>\<open>computeCubaturePoints\<close>. The model is the program with
  assertions enabled: an operation whose assertion fails ends the program, which is the
  value \<open>None\<close> here. (With assertions compiled out the same operation has undefined
  behaviour.) Where the library transposes a vector on assignment to a row or a column,
  the transposition is written out. A matrix with no rows is the empty list whatever its
  number of columns, so the model does not tell a 0-by-n matrix from the 0-by-0 one; this
  matters only for a filter one of whose dimensions is 0.
\<close>

type_synonym mat = "real list list"

definition rows :: "mat \<Rightarrow> nat" where
  "rows m = length m"

definition cols :: "mat \<Rightarrow> nat" where
  "cols m = (case m of [] \<Rightarrow> 0 | r # _ \<Rightarrow> length r)"

definition size_m :: "mat \<Rightarrow> nat" where
  "size_m m = rows m * cols m"

definition Zero :: "nat \<Rightarrow> nat \<Rightarrow> mat" where
  "Zero r c = replicate r (replicate c 0)"

definition transpose_m :: "mat \<Rightarrow> mat" where
  "transpose_m m = map (\<lambda>j. map (\<lambda>r. r ! j) m) [0..<cols m]"

definition smult :: "real \<Rightarrow> mat \<Rightarrow> mat" where
  "smult s m = map (map (\<lambda>x. s * x)) m"

definition add_m :: "mat \<Rightarrow> mat \<Rightarrow> mat option" where
  "add_m a b = (if rows a = rows b \<and> cols a = cols b
                then Some (map2 (map2 (+)) a b) else None)"

definition sub_m :: "mat \<Rightarrow> mat \<Rightarrow> mat option" where
  "sub_m a b = (if rows a = rows b \<and> cols a = cols b
                then Some (map2 (map2 (-)) a b) else None)"

definition mul_m :: "mat \<Rightarrow> mat \<Rightarrow> mat option" where
  "mul_m a b = (if cols a = rows b
                then Some (map (\<lambda>r. map (\<lambda>j. sum_list (map (\<lambda>k. r ! k * b ! k ! j) [0..<cols a]))
                                         [0..<cols b]) a)
                else None)"

definition row :: "nat \<Rightarrow> mat \<Rightarrow> mat option" where
  "row i m = (if i < rows m then Some [m ! i] else None)"

definition col :: "nat \<Rightarrow> mat \<Rightarrow> mat option" where
  "col j m = (if j < cols m then Some (map (\<lambda>r. [r ! j]) m) else None)"

definition coeff :: "mat \<Rightarrow> nat \<Rightarrow> real option" where
  \<comment> \<open>\<^verbatim>\<open>v[i]\<close> on a column vector\<close>
  "coeff v i = (if i < rows v \<and> cols v = 1 then Some (v ! i ! 0) else None)"

definition set_row :: "nat \<Rightarrow> mat \<Rightarrow> mat \<Rightarrow> mat option" where
  \<comment> \<open>\<^verbatim>\<open>m.row(i) = v\<close> for a row vector \<open>v\<close>: a block cannot be resized\<close>
  "set_row i m v = (if i < rows m \<and> rows v = 1 \<and> cols v = cols m
                    then Some (m[i := v ! 0]) else None)"

definition block :: "nat \<Rightarrow> nat \<Rightarrow> nat \<Rightarrow> nat \<Rightarrow> mat \<Rightarrow> mat option" where
  "block i0 j0 p q m = (if i0 + p \<le> rows m \<and> j0 + q \<le> cols m
                        then Some (map (\<lambda>r. take q (drop j0 r)) (take p (drop i0 m)))
                        else None)"

definition set_block :: "nat \<Rightarrow> nat \<Rightarrow> nat \<Rightarrow> nat \<Rightarrow> mat \<Rightarrow> mat \<Rightarrow> mat option" where
  "set_block i0 j0 p q m b =
     (if i0 + p \<le> rows m \<and> j0 + q \<le> cols m \<and> rows b = p \<and> cols b = q
      then Some (map (\<lambda>i. if i0 \<le> i \<and> i < i0 + p
                           then take j0 (m ! i) @ b ! (i - i0) @ drop (j0 + q) (m ! i)
                           else m ! i) [0..<rows m])
      else None)"

definition topLeftCorner :: "nat \<Rightarrow> nat \<Rightarrow> mat \<Rightarrow> mat option" where
  "topLeftCorner p q m = block 0 0 p q m"

definition bottomRightCorner :: "nat \<Rightarrow> nat \<Rightarrow> mat \<Rightarrow> mat option" where
  "bottomRightCorner p q m =
     (if p \<le> rows m \<and> q \<le> cols m then block (rows m - p) (cols m - q) p q m else None)"

definition set_topLeftCorner :: "nat \<Rightarrow> nat \<Rightarrow> mat \<Rightarrow> mat \<Rightarrow> mat option" where
  "set_topLeftCorner p q m b = set_block 0 0 p q m b"

definition set_bottomRightCorner :: "nat \<Rightarrow> nat \<Rightarrow> mat \<Rightarrow> mat \<Rightarrow> mat option" where
  "set_bottomRightCorner p q m b =
     (if p \<le> rows m \<and> q \<le> cols m then set_block (rows m - p) (cols m - q) p q m b else None)"

definition inverse_m :: "(mat \<Rightarrow> mat) \<Rightarrow> mat \<Rightarrow> mat option" where
  \<comment> \<open>\<^verbatim>\<open>m.inverse()\<close>: asserts a square matrix, then runs the library's inversion \<open>lu\<close>\<close>
  "inverse_m lu m = (if rows m = cols m then Some (lu m) else None)"

text \<open>A counted loop \<^verbatim>\<open>for (int i = 0; i < n; i++)\<close> runs its body over \<open>[0..<n]\<close> and stops
  at the first failed assertion.\<close>

fun for_loop :: "nat list \<Rightarrow> (nat \<Rightarrow> 'a \<Rightarrow> 'a option) \<Rightarrow> 'a \<Rightarrow> 'a option" where
  "for_loop [] body s = Some s"
| "for_loop (i # is) body s = (case body i s of None \<Rightarrow> None | Some s' \<Rightarrow> for_loop is body s')"

section \<open>The Cholesky factorisation of the matrix library\<close>

text \<open>
  \<^verbatim>\<open>Eigen::LLT\<close> belongs to the matrix library, not to the filter. The filter's functions
  below take the factorisation as a parameter \<open>llt\<close> (the matrix that \<^verbatim>\<open>matrixL()\<close>
  hands back). To run the filter on concrete inputs, \<open>eigen_llt\<close> follows the library's
  unblocked in-place algorithm: column \<open>k\<close> is computed from the columns to its left, and the
  factorisation stops at the first pivot that is not positive, leaving the remaining
  columns as they were in the input and recording a numerical issue. Neither the
  constructor nor \<^verbatim>\<open>matrixL()\<close> fails in that case.
\<close>

datatype ComputationInfo = Success | NumericalIssue

definition llt_pivot :: "nat \<Rightarrow> mat \<Rightarrow> real" where
  "llt_pivot k m = m ! k ! k - sum_list (map (\<lambda>j. (m ! k ! j) * (m ! k ! j)) [0..<k])"

definition llt_column :: "nat \<Rightarrow> real \<Rightarrow> mat \<Rightarrow> mat" where
  "llt_column k d m =
     map (\<lambda>i. if i = k then (m ! i)[k := d]
              else if k < i
                   then (m ! i)[k := (m ! i ! k
                                      - sum_list (map (\<lambda>j. m ! i ! j * m ! k ! j) [0..<k])) / d]
                   else m ! i) [0..<length m]"

fun llt_inplace :: "nat \<Rightarrow> nat \<Rightarrow> mat \<Rightarrow> mat \<times> ComputationInfo" where
  "llt_inplace 0 k m = (m, Success)"
| "llt_inplace (Suc fuel) k m =
     (let x = llt_pivot k m
      in if x \<le> 0 then (m, NumericalIssue)
         else llt_inplace fuel (Suc k) (llt_column k (sqrt x) m))"

definition matrixL :: "mat \<Rightarrow> mat" where
  "matrixL m = map (\<lambda>i. map (\<lambda>j. if j \<le> i then m ! i ! j else 0) [0..<length m]) [0..<length m]"

definition eigen_llt :: "mat \<Rightarrow> mat" where
  "eigen_llt a = matrixL (fst (llt_inplace (length a) 0 a))"

definition llt_info :: "mat \<Rightarrow> ComputationInfo" where
  "llt_info a = snd (llt_inplace (length a) 0 a)"

section \<open>The filter\<close>

text \<open>
  The fields of \<^verbatim>\<open>CubatureKalmanFilterX\<close>. \<^verbatim>\<open>state_dim\<close>, \<^verbatim>\<open>input_dim\<close> and
  \<^verbatim>\<open>measurement_dim\<close> hold the same values as \<open>N\<close>, \<open>M\<close> and \<open>K\<close>; the random generator
  and the normal distribution are never read. The system model (its functions \<open>f\<close> and
  \<open>h\<close>, both taking and returning column vectors) is passed to \<open>predict\<close> and \<open>correct\<close>.
  Dimensions are natural numbers.
\<close>

record ckf =
  N :: nat
  M :: nat
  K :: nat
  S :: nat
  mean :: mat
  cov :: mat
  process_noise :: mat
  measurement_noise :: mat
  weights :: mat
  cubature_points :: mat
  ext_weights :: mat
  ext_cubature_points :: mat
  expected_measurements :: mat
  kalman_gain :: mat

text \<open>
  The constructor. \<^verbatim>\<open>resize\<close> leaves the coefficients unspecified; they are zero here. The
  two loops write \<^verbatim>\<open>weights[i] = 1.0 / S\<close> and \<^verbatim>\<open>ext_weights[i] = 1.0 / 2*(N+K)\<close>; in C++
  the latter is \<open>(1.0 / 2) * (N + K)\<close>. \<^verbatim>\<open>kalman_gain\<close> is not mentioned by the
  constructor, so it is the default matrix with no rows and no columns.
\<close>

definition CubatureKalmanFilterX ::
  "nat \<Rightarrow> nat \<Rightarrow> nat \<Rightarrow> mat \<Rightarrow> mat \<Rightarrow> mat \<Rightarrow> mat \<Rightarrow> ckf" where
  "CubatureKalmanFilterX state_dim input_dim measurement_dim process_noise0 measurement_noise0
       mean0 cov0 =
     (let n = state_dim; k = measurement_dim; s = 2 * state_dim
      in \<lparr> N = n, M = input_dim, K = k, S = s,
           mean = mean0, cov = cov0,
           process_noise = process_noise0, measurement_noise = measurement_noise0,
           weights = fold (\<lambda>i w. w[i := [1 / real s]]) [0..<s] (Zero s 1),
           cubature_points = Zero s n,
           ext_weights = fold (\<lambda>i w. w[i := [(1 / 2) * real (n + k)]]) [0..<2 * (n + k)]
                              (Zero (2 * (n + k)) 1),
           ext_cubature_points = Zero (2 * (n + k)) (n + k),
           expected_measurements = Zero (2 * (n + k)) k,
           kalman_gain = [] \<rparr>)"

definition getKalmanGain :: "ckf \<Rightarrow> mat" where
  "getKalmanGain st = kalman_gain st"

text \<open>\<^verbatim>\<open>ensurePositiveFinite\<close> begins with \<^verbatim>\<open>return;\<close>: the eigenvalue clipping after it
  is never reached, and the matrix passed by reference is left as it is.\<close>

definition ensurePositiveFinite :: "mat \<Rightarrow> mat" where
  "ensurePositiveFinite c = c"

text \<open>
  \<^verbatim>\<open>computeCubaturePoints(mean, cov, cubature_points)\<close> writes the rows \<open>i\<close> and \<open>n + i\<close>
  of the buffer it is given. A column vector assigned to a row is transposed by the
  library. The outcome of the factorisation is not inspected.
\<close>

definition cubature_point_pair :: "mat \<Rightarrow> mat \<Rightarrow> nat \<Rightarrow> nat \<Rightarrow> mat \<Rightarrow> mat option" where
  \<comment> \<open>the body of the loop: rows \<open>i\<close> and \<open>n + i\<close>\<close>
  "cubature_point_pair mean0 l n i p =
     do {
       c \<leftarrow> col i l;
       a \<leftarrow> add_m mean0 c;
       p1 \<leftarrow> set_row i p (transpose_m a);
       d \<leftarrow> sub_m mean0 c;
       set_row (n + i) p1 (transpose_m d)
     }"

definition computeCubaturePoints :: "(mat \<Rightarrow> mat) \<Rightarrow> mat \<Rightarrow> mat \<Rightarrow> mat \<Rightarrow> mat option" where
  "computeCubaturePoints llt mean0 cov0 points =
     (let n = size_m mean0
      in if rows cov0 = n \<and> cols cov0 = n
         then (let P_chol = llt cov0;
                   l = smult (sqrt (real n)) P_chol
               in for_loop [0..<n] (cubature_point_pair mean0 l n) points)
         else None)"

text \<open>The recombination loops of \<^verbatim>\<open>predict\<close> (and, with the extended weights, of
  \<^verbatim>\<open>correct\<close>): the weighted sum of the rows, and of their outer products.\<close>

definition weighted_mean :: "nat \<Rightarrow> mat \<Rightarrow> mat \<Rightarrow> mat \<Rightarrow> mat option" where
  "weighted_mean s w points init =
     for_loop [0..<s]
       (\<lambda>i acc. do {
          wi \<leftarrow> coeff w i;
          r \<leftarrow> row i points;
          add_m acc (transpose_m (smult wi r)) })
       init"

definition weighted_outer :: "nat \<Rightarrow> mat \<Rightarrow> mat \<Rightarrow> mat \<Rightarrow> mat \<Rightarrow> mat option" where
  "weighted_outer s w left right init =
     for_loop [0..<s]
       (\<lambda>i acc. do {
          wi \<leftarrow> coeff w i;
          a \<leftarrow> row i left;
          b \<leftarrow> row i right;
          p \<leftarrow> mul_m (smult wi (transpose_m a)) b;
          add_m acc p })
       init"

definition predict_points ::
  "(mat \<Rightarrow> mat) \<Rightarrow> (mat \<Rightarrow> mat \<Rightarrow> mat) \<Rightarrow> mat \<Rightarrow> mat \<Rightarrow> ckf \<Rightarrow> mat option" where
  \<comment> \<open>the cubature points of the current belief, each propagated through \<open>f\<close>\<close>
  "predict_points llt f control cov1 st =
     do {
       pts \<leftarrow> computeCubaturePoints llt (mean st) cov1 (cubature_points st);
       for_loop [0..<S st]
         (\<lambda>i p. do {
            r \<leftarrow> row i p;
            set_row i p (transpose_m (f (transpose_m r) control)) })
         pts
     }"

definition predict_cov :: "nat \<Rightarrow> mat \<Rightarrow> mat \<Rightarrow> mat \<Rightarrow> mat \<Rightarrow> mat \<Rightarrow> mat option" where
  \<comment> \<open>\<^verbatim>\<open>cov_pred\<close>: the loop, then \<^verbatim>\<open>cov_pred -= mean_pred.transpose() * mean_pred\<close> and
      \<^verbatim>\<open>cov_pred += Q\<close>\<close>
  "predict_cov s w pts mean_pred cov1 q =
     do {
       cov_pred \<leftarrow> weighted_outer s w pts pts (Zero (rows cov1) (cols cov1));
       mm \<leftarrow> mul_m (transpose_m mean_pred) mean_pred;
       cov_pred \<leftarrow> sub_m cov_pred mm;
       add_m cov_pred q
     }"

definition predict :: "(mat \<Rightarrow> mat) \<Rightarrow> (mat \<Rightarrow> mat \<Rightarrow> mat) \<Rightarrow> mat \<Rightarrow> ckf \<Rightarrow> ckf option" where
  "predict llt f control st =
     do {
       let cov1 = ensurePositiveFinite (cov st);
       pts \<leftarrow> predict_points llt f control cov1 st;
       let Q = process_noise st;
       mean_pred \<leftarrow> weighted_mean (S st) (weights st) pts (Zero (size_m (mean st)) 1);
       cov_pred \<leftarrow> predict_cov (S st) (weights st) pts mean_pred cov1 Q;
       Some (st\<lparr> mean := mean_pred, cov := cov_pred, cubature_points := pts \<rparr>)
     }"

fun predict_all :: "(mat \<Rightarrow> mat) \<Rightarrow> (mat \<Rightarrow> mat \<Rightarrow> mat) \<Rightarrow> mat list \<Rightarrow> ckf \<Rightarrow> ckf option" where
  "predict_all llt f [] st = Some st"
| "predict_all llt f (u # us) st =
     (case predict llt f u st of None \<Rightarrow> None | Some st' \<Rightarrow> predict_all llt f us st')"

text \<open>
  \<^verbatim>\<open>correct(measurement)\<close>, in the order of the source. Two places of its text need a
  reading. The statement that accumulates \<^verbatim>\<open>cross_cov\<close> has no semicolon; the loop is
  taken to end there, and the subtraction after it to follow the loop. The name
  \<^verbatim>\<open>mean_pred\<close> used for the expected measurement covariance is declared neither in
  \<^verbatim>\<open>correct\<close> nor as a field (it is a local variable of \<^verbatim>\<open>predict\<close>); its value is the
  parameter \<open>mean_pred\<close> here. The matrix inversion of the library is the parameter \<open>lu\<close>.
\<close>

definition correct_ext_mean_pred :: "ckf \<Rightarrow> mat option" where
  "correct_ext_mean_pred st = set_topLeftCorner (N st) 1 (Zero (N st + K st) 1) (mean st)"

definition correct_ext_cov_pred :: "ckf \<Rightarrow> mat option" where
  "correct_ext_cov_pred st =
     do {
       c \<leftarrow> set_topLeftCorner (N st) (N st) (Zero (N st + K st) (N st + K st)) (cov st);
       set_bottomRightCorner (K st) (K st) c (measurement_noise st)
     }"

definition correct_expected_measurements ::
  "(mat \<Rightarrow> mat) \<Rightarrow> nat \<Rightarrow> nat \<Rightarrow> mat \<Rightarrow> mat \<Rightarrow> mat option" where
  "correct_expected_measurements h n k ext_points em =
     for_loop [0..<rows ext_points]
       (\<lambda>i e. do {
          r \<leftarrow> row i ext_points;
          x \<leftarrow> topLeftCorner n 1 (transpose_m r);
          e1 \<leftarrow> set_row i e (transpose_m (h x));
          v \<leftarrow> bottomRightCorner k 1 (transpose_m r);
          r1 \<leftarrow> row i e1;
          s \<leftarrow> add_m r1 (transpose_m v);
          set_row i e1 s })
       (Zero (rows em) (cols em))"

definition correct_expected_measurement_cov ::
  "nat \<Rightarrow> mat \<Rightarrow> mat \<Rightarrow> mat \<Rightarrow> mat \<Rightarrow> mat \<Rightarrow> mat \<Rightarrow> mat option" where
  "correct_expected_measurement_cov k ext_w ext_points em expected_measurement_mean mean_pred r =
     do {
       c \<leftarrow> weighted_outer (rows ext_points) ext_w em em (Zero k k);
       t \<leftarrow> mul_m (transpose_m expected_measurement_mean) mean_pred;
       c \<leftarrow> sub_m c t;
       add_m c r
     }"

definition correct_cross_cov ::
  "nat \<Rightarrow> nat \<Rightarrow> nat \<Rightarrow> mat \<Rightarrow> mat \<Rightarrow> mat \<Rightarrow> mat \<Rightarrow> mat \<Rightarrow> mat option" where
  "correct_cross_cov n k s ext_w ext_points em ext_mean_pred expected_measurement_mean =
     do {
       c \<leftarrow> weighted_outer s ext_w ext_points em (Zero n k);
       t \<leftarrow> mul_m ext_mean_pred expected_measurement_mean;
       sub_m c t
     }"

definition correct_kalman_gain :: "(mat \<Rightarrow> mat) \<Rightarrow> mat \<Rightarrow> mat option" where
  "correct_kalman_gain lu cross_cov =
     do {
       ci \<leftarrow> inverse_m lu cross_cov;
       mul_m cross_cov ci
     }"

definition correct_update ::
  "nat \<Rightarrow> mat \<Rightarrow> mat \<Rightarrow> mat \<Rightarrow> mat \<Rightarrow> mat \<Rightarrow> mat \<Rightarrow> (mat \<times> mat) option" where
  "correct_update n ext_mean_pred ext_cov_pred gain measurement expected_measurement_mean
       expected_measurement_cov =
     do {
       d \<leftarrow> sub_m measurement expected_measurement_mean;
       g \<leftarrow> mul_m gain d;
       ext_mean \<leftarrow> add_m ext_mean_pred g;
       ge \<leftarrow> mul_m gain expected_measurement_cov;
       gg \<leftarrow> mul_m ge (transpose_m gain);
       ext_cov \<leftarrow> sub_m ext_cov_pred gg;
       new_mean \<leftarrow> topLeftCorner n 1 ext_mean;
       new_cov \<leftarrow> topLeftCorner n n ext_cov;
       Some (new_mean, new_cov)
     }"

definition correct_sample ::
  "(mat \<Rightarrow> mat) \<Rightarrow> (mat \<Rightarrow> mat) \<Rightarrow> ckf \<Rightarrow> (mat \<times> mat \<times> mat \<times> mat \<times> mat) option" where
  \<comment> \<open>up to the expected measurement mean: the augmented mean and covariance, the
      augmented points, the expected measurements and their weighted mean\<close>
  "correct_sample llt h st =
     do {
       ext_mean_pred \<leftarrow> correct_ext_mean_pred st;
       ext_cov_pred0 \<leftarrow> correct_ext_cov_pred st;
       let ext_cov_pred = ensurePositiveFinite ext_cov_pred0;
       ext_points \<leftarrow> computeCubaturePoints llt ext_mean_pred ext_cov_pred (ext_cubature_points st);
       em \<leftarrow> correct_expected_measurements h (N st) (K st) ext_points (expected_measurements st);
       z \<leftarrow> weighted_mean (rows ext_points) (ext_weights st) em (Zero (K st) 1);
       Some (ext_mean_pred, ext_cov_pred, ext_points, em, z)
     }"

definition correct ::
  "(mat \<Rightarrow> mat) \<Rightarrow> (mat \<Rightarrow> mat) \<Rightarrow> (mat \<Rightarrow> mat) \<Rightarrow> mat \<Rightarrow> mat \<Rightarrow> ckf \<Rightarrow> ckf option" where
  "correct llt lu h mean_pred measurement st =
     do {
       (ext_mean_pred, ext_cov_pred, ext_points, em, z) \<leftarrow> correct_sample llt h st;
       zc \<leftarrow> correct_expected_measurement_cov (K st) (ext_weights st) ext_points em z mean_pred
               (measurement_noise st);
       cross_cov \<leftarrow> correct_cross_cov (N st) (K st) (S st) (ext_weights st) ext_points em
               ext_mean_pred z;
       gain \<leftarrow> correct_kalman_gain lu cross_cov;
       (new_mean, new_cov) \<leftarrow> correct_update (N st) ext_mean_pred ext_cov_pred gain measurement z zc;
       Some (st\<lparr> mean := new_mean, cov := new_cov, ext_cubature_points := ext_points,
                 expected_measurements := em, kalman_gain := gain \<rparr>)
     }"

section \<open>The formulas of the specification\<close>

text \<open>
  The written specification gives the predicted covariance, the expected measurement
  covariance, the cross-covariance and the gain by formulas. They are stated here in its
  words, next to the functions of the source above, so that the two can be compared on
  the same inputs.
\<close>

definition spec_predicted_cov :: "nat \<Rightarrow> mat \<Rightarrow> mat \<Rightarrow> mat \<Rightarrow> mat \<Rightarrow> mat option" where
  \<comment> \<open>sum of \<open>weight[i] * point[i] * point[i]\<^sup>T\<close>, minus predicted mean times predicted mean
      transposed, plus Q\<close>
  "spec_predicted_cov s w pts mean_pred q =
     do {
       c \<leftarrow> weighted_outer s w pts pts (Zero (rows mean_pred) (rows mean_pred));
       t \<leftarrow> mul_m mean_pred (transpose_m mean_pred);
       c \<leftarrow> sub_m c t;
       add_m c q
     }"

definition spec_expected_measurement_cov :: "nat \<Rightarrow> mat \<Rightarrow> mat \<Rightarrow> mat \<Rightarrow> mat \<Rightarrow> mat \<Rightarrow> mat option" where
  \<comment> \<open>sum of \<open>ext_weight[i] * z[i] * z[i]\<^sup>T\<close> over all augmented points, minus mean times mean
      transposed, plus R\<close>
  "spec_expected_measurement_cov k ext_w ext_points em expected_measurement_mean r =
     do {
       c \<leftarrow> weighted_outer (rows ext_points) ext_w em em (Zero k k);
       t \<leftarrow> mul_m expected_measurement_mean (transpose_m expected_measurement_mean);
       c \<leftarrow> sub_m c t;
       add_m c r
     }"

definition spec_cross_cov :: "nat \<Rightarrow> nat \<Rightarrow> mat \<Rightarrow> mat \<Rightarrow> mat \<Rightarrow> mat \<Rightarrow> mat \<Rightarrow> mat option" where
  \<comment> \<open>sum of \<open>ext_weight[i] * x[i] * z[i]\<^sup>T\<close> over all augmented points, minus augmented mean
      times expected measurement mean transposed\<close>
  "spec_cross_cov n k ext_w ext_points em ext_mean_pred expected_measurement_mean =
     do {
       c \<leftarrow> weighted_outer (rows ext_points) ext_w ext_points em (Zero (n + k) k);
       t \<leftarrow> mul_m ext_mean_pred (transpose_m expected_measurement_mean);
       sub_m c t
     }"

definition spec_kalman_gain :: "(mat \<Rightarrow> mat) \<Rightarrow> mat \<Rightarrow> mat \<Rightarrow> mat option" where
  \<comment> \<open>cross-covariance times the inverse of the expected measurement covariance\<close>
  "spec_kalman_gain lu cross_cov expected_measurement_cov =
     do {
       si \<leftarrow> inverse_m lu expected_measurement_cov;
       mul_m cross_cov si
     }"

definition inverse_1x1 :: "mat \<Rightarrow> mat" where
  \<comment> \<open>the inverse of a matrix with one coefficient, to run the gain on an example\<close>
  "inverse_1x1 m = [[1 / m ! 0 ! 0]]"

section \<open>Rounding of the scalar type\<close>

text \<open>
  A floating-point scalar type returns, for every arithmetic operation, the exact result
  rounded. The functions below repeat the source of \<^verbatim>\<open>computeCubaturePoints\<close>, of the loop
  that stores \<^verbatim>\<open>weights[i] = 1.0 / S\<close> and of the loop
  \<^verbatim>\<open>mean_pred += weights[i] * cubature_points.row(i)\<close> with a rounding \<open>rnd\<close> applied to the
  result of each scalar operation: the division, the square root, each product and each
  sum (every operation rounded on its own, no fused multiply-add). This is the source for
  a scalar type in which \<^verbatim>\<open>1.0 / S\<close> and \<^verbatim>\<open>sqrt(n)\<close> are computed, that is, for
  \<^verbatim>\<open>T = double\<close>. The factor \<open>llt cov\<close> is the matrix the library returns. With the identity
  for \<open>rnd\<close> these are the functions of the section above.
\<close>

definition rnd_m :: "(real \<Rightarrow> real) \<Rightarrow> mat \<Rightarrow> mat" where
  "rnd_m rnd m = map (map rnd) m"

definition stored_weights :: "(real \<Rightarrow> real) \<Rightarrow> nat \<Rightarrow> mat" where
  "stored_weights rnd s = fold (\<lambda>i w. w[i := [rnd (1 / real s)]]) [0..<s] (Zero s 1)"

definition cubature_point_pair_rounded ::
  "(real \<Rightarrow> real) \<Rightarrow> mat \<Rightarrow> mat \<Rightarrow> nat \<Rightarrow> nat \<Rightarrow> mat \<Rightarrow> mat option" where
  "cubature_point_pair_rounded rnd mean0 l n i p =
     do {
       c \<leftarrow> col i l;
       a \<leftarrow> add_m mean0 c;
       p1 \<leftarrow> set_row i p (transpose_m (rnd_m rnd a));
       d \<leftarrow> sub_m mean0 c;
       set_row (n + i) p1 (transpose_m (rnd_m rnd d))
     }"

definition computeCubaturePoints_rounded ::
  "(real \<Rightarrow> real) \<Rightarrow> (mat \<Rightarrow> mat) \<Rightarrow> mat \<Rightarrow> mat \<Rightarrow> mat \<Rightarrow> mat option" where
  "computeCubaturePoints_rounded rnd llt mean0 cov0 points =
     (let n = size_m mean0
      in if rows cov0 = n \<and> cols cov0 = n
         then (let P_chol = llt cov0;
                   l = rnd_m rnd (smult (rnd (sqrt (real n))) P_chol)
               in for_loop [0..<n] (cubature_point_pair_rounded rnd mean0 l n) points)
         else None)"

definition weighted_mean_rounded :: "(real \<Rightarrow> real) \<Rightarrow> nat \<Rightarrow> mat \<Rightarrow> mat \<Rightarrow> mat \<Rightarrow> mat option" where
  "weighted_mean_rounded rnd s w points init =
     for_loop [0..<s]
       (\<lambda>i acc. do {
          wi \<leftarrow> coeff w i;
          r \<leftarrow> row i points;
          a \<leftarrow> add_m acc (transpose_m (rnd_m rnd (smult wi r)));
          Some (rnd_m rnd a) })
       init"







text \<open>
  \<open>unrounded rnd n mean L P\<close>: rounding changes neither the stored weight \<open>1 / (2 n)\<close>, nor the
  sums \<open>mean + col i (L * sqrt n)\<close> and \<open>mean - col i (L * sqrt n)\<close>, nor any product
  \<open>weight * point\<close> or partial sum of the weighted sum of the points \<open>P\<close>.
\<close>

definition unrounded :: "(real \<Rightarrow> real) \<Rightarrow> nat \<Rightarrow> mat \<Rightarrow> mat \<Rightarrow> mat \<Rightarrow> bool" where
  "unrounded rnd n mean0 L P =
     (let w = 1 / real (2 * n)
      in rnd w = w
         \<and> list_all (\<lambda>j.
              list_all (\<lambda>i. let l = rnd (rnd (sqrt (real n)) * L ! j ! i)
                             in rnd (mean0 ! j ! 0 + l) = mean0 ! j ! 0 + l
                                \<and> rnd (mean0 ! j ! 0 - l) = mean0 ! j ! 0 - l) [0..<n]
              \<and> list_all (\<lambda>k. rnd (w * P ! k ! j) = w * P ! k ! j
                               \<and> rnd (sum_list (map (\<lambda>i. w * P ! i ! j) [0..<k]) + w * P ! k ! j)
                                  = sum_list (map (\<lambda>i. w * P ! i ! j) [0..<k]) + w * P ! k ! j)
                   [0..<2 * n]) [0..<n])"

section \<open>Well-shaped matrices\<close>

definition is_mat :: "nat \<Rightarrow> nat \<Rightarrow> mat \<Rightarrow> bool" where
  "is_mat r c m = (length m = r \<and> list_all (\<lambda>x. length x = c) m)"

section \<open>Evaluation and loop lemmas\<close>

lemmas mat_defs = rows_def cols_def size_m_def Zero_def transpose_m_def smult_def add_m_def sub_m_def
  mul_m_def row_def col_def coeff_def set_row_def block_def set_block_def topLeftCorner_def
  bottomRightCorner_def set_topLeftCorner_def set_bottomRightCorner_def inverse_m_def

lemmas llt_defs = llt_pivot_def llt_column_def matrixL_def eigen_llt_def llt_info_def

lemmas ckf_defs = CubatureKalmanFilterX_def ensurePositiveFinite_def computeCubaturePoints_def
  cubature_point_pair_def weighted_mean_def weighted_outer_def predict_points_def predict_cov_def
  predict_def spec_predicted_cov_def correct_def
  correct_ext_mean_pred_def correct_ext_cov_pred_def correct_expected_measurements_def
  correct_expected_measurement_cov_def correct_cross_cov_def correct_kalman_gain_def
  correct_update_def correct_sample_def spec_expected_measurement_cov_def spec_cross_cov_def
  spec_kalman_gain_def inverse_1x1_def Let_def



lemma for_loop_append:
  "for_loop (xs @ ys) body s = (case for_loop xs body s of None \<Rightarrow> None | Some s' \<Rightarrow> for_loop ys body s')"
  by (induction xs arbitrary: s) (auto split: option.splits)

lemma for_loop_upt_Suc:
  "for_loop [0..<Suc m] body s = (case for_loop [0..<m] body s of None \<Rightarrow> None | Some s' \<Rightarrow> body m s')"
  by (simp add: for_loop_append split: option.splits)

lemma fold_fill:
  "m \<le> length xs \<Longrightarrow> fold (\<lambda>i w. w[i := v]) [0..<m] xs = replicate m v @ drop m xs"
proof (induction m)
  case 0
  then show ?case by simp
next
  case (Suc m)
  then have "fold (\<lambda>i w. w[i := v]) [0..<Suc m] xs = (replicate m v @ drop m xs)[m := v]"
    by simp
  also have "\<dots> = replicate m v @ (drop m xs)[0 := v]"
    by (simp add: list_update_append)
  also have "(drop m xs)[0 := v] = v # drop (Suc m) xs"
    using Suc.prems by (metis Cons_nth_drop_Suc Suc_le_lessD list_update_code(2))
  finally show ?case by (simp add: replicate_append_same)
qed

lemma weights_constructor:
  "weights (CubatureKalmanFilterX n m k q r mean0 cov0) = replicate (2 * n) [1 / real (2 * n)]"
  by (simp add: CubatureKalmanFilterX_def Let_def Zero_def fold_fill)

lemma ext_weights_constructor:
  "ext_weights (CubatureKalmanFilterX n m k q r mean0 cov0)
     = replicate (2 * (n + k)) [real (n + k) / 2]"
  by (simp add: CubatureKalmanFilterX_def Let_def Zero_def fold_fill)

lemma is_mat_rows: "is_mat r c m \<Longrightarrow> rows m = r"
  by (simp add: is_mat_def rows_def)

lemma is_mat_cols: "is_mat r c m \<Longrightarrow> 0 < r \<Longrightarrow> cols m = c"
  by (cases m) (auto simp: is_mat_def cols_def)

lemma is_mat_nth: "is_mat r c m \<Longrightarrow> i < r \<Longrightarrow> length (m ! i) = c"
  by (auto simp: is_mat_def list_all_length)

lemma is_mat_update: "is_mat r c m \<Longrightarrow> length v = c \<Longrightarrow> is_mat r c (m[i := v])"
  by (auto simp: is_mat_def list_all_length nth_list_update_eq nth_list_update_neq) (metis nth_list_update_eq nth_list_update_neq)

lemma is_mat_smult: "is_mat r c m \<Longrightarrow> is_mat r c (smult s m)"
  by (auto simp: is_mat_def smult_def list_all_length)

lemma col_is_mat:
  assumes "is_mat n c l" "i < c" "0 < n"
  shows "col i l = Some (map (\<lambda>r. [r ! i]) l)"
  using assms by (simp add: col_def is_mat_cols)

lemma add_columns:
  assumes "is_mat n 1 a" "length b = n" "0 < n"
  shows "add_m a (map (\<lambda>r. [g r]) b) = Some (map (\<lambda>j. [a ! j ! 0 + g (b ! j)]) [0..<n])"
proof -
  have c: "cols a = 1" using assms by (simp add: is_mat_cols)
  have r: "rows a = n" using assms by (simp add: is_mat_rows)
  have cb: "cols (map (\<lambda>r. [g r]) b) = 1" using assms by (cases b) (auto simp: cols_def)
  have "map2 (map2 (+)) a (map (\<lambda>r. [g r]) b) = map (\<lambda>j. [a ! j ! 0 + g (b ! j)]) [0..<n]"
  proof (rule nth_equalityI)
    show "length (map2 (map2 (+)) a (map (\<lambda>r. [g r]) b)) = length (map (\<lambda>j. [a ! j ! 0 + g (b ! j)]) [0..<n])"
      using assms by (simp add: is_mat_def)
  next
    fix j assume "j < length (map2 (map2 (+)) a (map (\<lambda>r. [g r]) b))"
    then have j: "j < n" using assms by (simp add: is_mat_def)
    then have "length (a ! j) = 1" using assms is_mat_nth by blast
    then obtain x where x: "a ! j = [x]" by (cases "a ! j") auto
    show "map2 (map2 (+)) a (map (\<lambda>r. [g r]) b) ! j = map (\<lambda>j. [a ! j ! 0 + g (b ! j)]) [0..<n] ! j"
      using j assms x by (simp add: is_mat_def)
  qed
  then show ?thesis using c r cb assms by (simp add: add_m_def rows_def)
qed

lemma sub_columns:
  assumes "is_mat n 1 a" "length b = n" "0 < n"
  shows "sub_m a (map (\<lambda>r. [g r]) b) = Some (map (\<lambda>j. [a ! j ! 0 - g (b ! j)]) [0..<n])"
proof -
  have c: "cols a = 1" using assms by (simp add: is_mat_cols)
  have r: "rows a = n" using assms by (simp add: is_mat_rows)
  have cb: "cols (map (\<lambda>r. [g r]) b) = 1" using assms by (cases b) (auto simp: cols_def)
  have "map2 (map2 (-)) a (map (\<lambda>r. [g r]) b) = map (\<lambda>j. [a ! j ! 0 - g (b ! j)]) [0..<n]"
  proof (rule nth_equalityI)
    show "length (map2 (map2 (-)) a (map (\<lambda>r. [g r]) b)) = length (map (\<lambda>j. [a ! j ! 0 - g (b ! j)]) [0..<n])"
      using assms by (simp add: is_mat_def)
  next
    fix j assume "j < length (map2 (map2 (-)) a (map (\<lambda>r. [g r]) b))"
    then have j: "j < n" using assms by (simp add: is_mat_def)
    then have "length (a ! j) = 1" using assms is_mat_nth by blast
    then obtain x where x: "a ! j = [x]" by (cases "a ! j") auto
    show "map2 (map2 (-)) a (map (\<lambda>r. [g r]) b) ! j = map (\<lambda>j. [a ! j ! 0 - g (b ! j)]) [0..<n] ! j"
      using j assms x by (simp add: is_mat_def)
  qed
  then show ?thesis using c r cb assms by (simp add: sub_m_def rows_def)
qed

lemma transpose_column:
  assumes "0 < n"
  shows "transpose_m (map (\<lambda>j. [g j]) [0..<n]) = [map g [0..<n]]"
proof -
  have "cols (map (\<lambda>j. [g j]) [0..<n]) = 1"
    using assms by (cases n) (auto simp: cols_def upt_rec)
  then show ?thesis by (simp add: transpose_m_def comp_def)
qed

lemma set_row_is_mat:
  assumes "is_mat r c p" "i < r" "length v = c"
  shows "set_row i p [v] = Some (p[i := v])"
proof -
  have "rows p = r" "cols p = c" using assms by (simp_all add: is_mat_rows is_mat_cols)
  then show ?thesis using assms by (simp add: set_row_def) (simp add: rows_def cols_def)
qed

lemma cubature_body:
  assumes "is_mat n 1 mean0" "is_mat n n l" "is_mat (2 * n) n p" "i < n"
  shows "cubature_point_pair mean0 l n i p
         = Some (p[i := map (\<lambda>j. mean0 ! j ! 0 + l ! j ! i) [0..<n],
                   n + i := map (\<lambda>j. mean0 ! j ! 0 - l ! j ! i) [0..<n]])"
proof -
  have n: "0 < n" using assms by simp
  have ll: "length l = n" using assms by (simp add: is_mat_def)
  have p1: "is_mat (2 * n) n (p[i := map (\<lambda>j. mean0 ! j ! 0 + l ! j ! i) [0..<n]])"
    using assms by (simp add: is_mat_update)
  show ?thesis
    using assms n ll
    by (simp add: cubature_point_pair_def col_is_mat add_columns sub_columns transpose_column
        set_row_is_mat [OF assms(3)] set_row_is_mat [OF p1])
qed

lemma cubature_loop:
  assumes "is_mat n 1 mean0" "is_mat n n l" "is_mat (2 * n) n p" "m \<le> n"
  shows "\<exists>P. for_loop [0..<m]
               (cubature_point_pair mean0 l n) p = Some P
             \<and> is_mat (2 * n) n P
             \<and> (\<forall>i<m. P ! i = map (\<lambda>j. mean0 ! j ! 0 + l ! j ! i) [0..<n]
                      \<and> P ! (n + i) = map (\<lambda>j. mean0 ! j ! 0 - l ! j ! i) [0..<n])"
  using assms(4)
proof (induction m)
  case 0
  then show ?case using assms by simp
next
  case (Suc m)
  let ?A = "\<lambda>i. map (\<lambda>j. mean0 ! j ! 0 + l ! j ! i) [0..<n]"
  let ?B = "\<lambda>i. map (\<lambda>j. mean0 ! j ! 0 - l ! j ! i) [0..<n]"
  let ?body = "cubature_point_pair mean0 l n"
  from Suc obtain P where P: "for_loop [0..<m] ?body p = Some P" "is_mat (2 * n) n P"
    "\<forall>i<m. P ! i = ?A i \<and> P ! (n + i) = ?B i"
    by auto
  have m: "m < n" using Suc.prems by simp
  let ?P' = "P[m := ?A m, n + m := ?B m]"
  have b: "?body m P = Some ?P'"
    using cubature_body [OF assms(1) assms(2) P(2) m] .
  have lenP: "length P = 2 * n" using P(2) by (simp add: is_mat_def)
  have "is_mat (2 * n) n ?P'"
    using P(2) by (simp add: is_mat_update)
  moreover have "\<forall>i<Suc m. ?P' ! i = ?A i \<and> ?P' ! (n + i) = ?B i"
  proof (intro allI impI)
    fix i assume i: "i < Suc m"
    show "?P' ! i = ?A i \<and> ?P' ! (n + i) = ?B i"
    proof (cases "i = m")
      case True
      then show ?thesis using m lenP by (simp add: nth_list_update)
    next
      case False
      then have "i < m" using i by simp
      then show ?thesis using P(3) m lenP False by (simp add: nth_list_update)
    qed
  qed
  moreover have "for_loop [0..<Suc m] ?body p = Some ?P'"
    using P(1) b by (simp only: for_loop_upt_Suc option.case)
  ultimately show ?case by blast
qed

lemma sum_list_upt_Suc: "sum_list (map f [0..<Suc m]) = sum_list (map f [0..<m]) + (f m :: real)"
  by simp

lemma weighted_mean_loop:
  assumes "is_mat r n P" "m \<le> r" "0 < n"
  shows "for_loop [0..<m]
           (\<lambda>i acc. do { wi \<leftarrow> coeff (replicate r [c]) i;
                          x \<leftarrow> row i P;
                          add_m acc (transpose_m (smult wi x)) }) (Zero n 1)
         = Some (map (\<lambda>j. [sum_list (map (\<lambda>i. c * P ! i ! j) [0..<m])]) [0..<n])"
  using assms(2)
proof (induction m)
  case 0
  then show ?case by (simp add: Zero_def map_replicate_const)
next
  case (Suc m)
  let ?body = "\<lambda>i acc. do { wi \<leftarrow> coeff (replicate r [c]) i;
                          x \<leftarrow> row i P;
                          add_m acc (transpose_m (smult wi x)) }"
  let ?acc = "map (\<lambda>j. [sum_list (map (\<lambda>i. c * P ! i ! j) [0..<m])]) [0..<n]"
  have m: "m < r" using Suc.prems by simp
  have IH: "for_loop [0..<m] ?body (Zero n 1) = Some ?acc" using Suc by simp
  have "cols (replicate r [c]) = 1" using m by (cases r) (auto simp: cols_def)
  then have w: "coeff (replicate r [c]) m = Some c"
    using m by (simp add: coeff_def rows_def)
  have x: "row m P = Some [P ! m]"
    using m assms(1) by (simp add: row_def is_mat_rows)
  have len: "length (P ! m) = n" using assms(1) m by (rule is_mat_nth)
  have t: "transpose_m (smult c [P ! m]) = map (\<lambda>j. [c * P ! m ! j]) [0..<n]"
    using len by (simp add: transpose_m_def smult_def cols_def)
  have acc: "is_mat n 1 ?acc" by (simp add: is_mat_def list_all_length)
  have "add_m ?acc (map (\<lambda>j. [c * P ! m ! j]) [0..<n])
         = Some (map (\<lambda>j. [?acc ! j ! 0 + c * P ! m ! ([0..<n] ! j)]) [0..<n])"
    using add_columns [OF acc _ assms(3), of "[0..<n]" "\<lambda>j. c * P ! m ! j"] by simp
  also have "map (\<lambda>j. [?acc ! j ! 0 + c * P ! m ! ([0..<n] ! j)]) [0..<n]
         = map (\<lambda>j. [sum_list (map (\<lambda>i. c * P ! i ! j) [0..<Suc m])]) [0..<n]"
    by (rule map_cong) (auto simp del: upt_Suc simp add: sum_list_upt_Suc)
  finally have "?body m ?acc = Some (map (\<lambda>j. [sum_list (map (\<lambda>i. c * P ! i ! j) [0..<Suc m])]) [0..<n])"
    using w x t by simp
  then show ?case using IH by (simp only: for_loop_upt_Suc option.case)
qed

lemma half_sum:
  fixes a :: real
  assumes "0 < n"
  shows "(1 / real (2 * n)) * (a + x) + (1 / real (2 * n)) * (a - x) = a / real n"
proof -
  have "(1 / real (2 * n)) * (a + x) + (1 / real (2 * n)) * (a - x) = (1 / real (2 * n)) * (2 * a)"
    by (simp only: distrib_left [symmetric]) simp
  also have "\<dots> = a / real n" using assms by simp
  finally show ?thesis .
qed

lemma sum_split_twice:
  fixes c :: real and n :: nat
  shows "(\<Sum>i = 0..<2 * n. c * g i) = (\<Sum>i = 0..<n. c * g i + c * g (n + i))"
proof -
  have "(\<Sum>i = 0..<2 * n. c * g i) = (\<Sum>i = 0..<n. c * g i) + (\<Sum>i = n..<2 * n. c * g i)"
    by (rule sum.atLeastLessThan_concat [symmetric]) simp_all
  also have "(\<Sum>i = n..<2 * n. c * g i) = (\<Sum>i = 0..<n. c * g (n + i))"
    using sum.shift_bounds_nat_ivl [of "\<lambda>i. c * g i" 0 n n]
    by (simp add: add.commute mult_2)
  finally show ?thesis by (simp only: sum.distrib)
qed

lemma cubature_sum:
  fixes a :: real
  assumes "0 < n" "\<forall>i<n. g i = a + d i \<and> g (n + i) = a - d i"
  shows "sum_list (map (\<lambda>i. (1 / real (2 * n)) * g i) [0..<2 * n]) = a"
proof -
  have "sum_list (map (\<lambda>i. (1 / real (2 * n)) * g i) [0..<2 * n])
         = (\<Sum>i = 0..<2 * n. (1 / real (2 * n)) * g i)"
    by (simp only: interv_sum_list_conv_sum_set_nat set_upt)
  also have "\<dots> = (\<Sum>i = 0..<n. (1 / real (2 * n)) * g i + (1 / real (2 * n)) * g (n + i))"
    by (rule sum_split_twice)
  also have "\<dots> = (\<Sum>i = 0..<n. a / real n)"
  proof (rule sum.cong [OF refl])
    fix i assume "i \<in> {0..<n}"
    then have gi: "g i = a + d i" "g (n + i) = a - d i" using assms(2) by auto
    show "(1 / real (2 * n)) * g i + (1 / real (2 * n)) * g (n + i) = a / real n"
      unfolding gi using assms(1) by (rule half_sum)
  qed
  also have "\<dots> = a" using assms(1) by simp
  finally show ?thesis .
qed

lemma column_eq:
  assumes "is_mat n 1 v"
  shows "map (\<lambda>j. [v ! j ! 0]) [0..<n] = v"
proof (rule nth_equalityI)
  show "length (map (\<lambda>j. [v ! j ! 0]) [0..<n]) = length v" using assms by (simp add: is_mat_def)
next
  fix j assume "j < length (map (\<lambda>j. [v ! j ! 0]) [0..<n])"
  then have j: "j < n" by simp
  then have "length (v ! j) = 1" using assms is_mat_nth by blast
  then obtain x where "v ! j = [x]" by (cases "v ! j") auto
  then show "map (\<lambda>j. [v ! j ! 0]) [0..<n] ! j = v ! j" using j by simp
qed

lemma cubature_points_general:
  assumes "is_mat n 1 mean0" "is_mat n n cov0" "is_mat n n (llt cov0)" "is_mat (2 * n) n points"
    and "0 < n"
  shows "\<exists>P. computeCubaturePoints llt mean0 cov0 points = Some P \<and> is_mat (2 * n) n P
           \<and> (\<forall>i<n. \<forall>j<n. P ! i ! j = mean0 ! j ! 0 + sqrt (real n) * llt cov0 ! j ! i
                            \<and> P ! (n + i) ! j = mean0 ! j ! 0 - sqrt (real n) * llt cov0 ! j ! i)"
proof -
  have n: "0 < n" by fact
  let ?l = "smult (sqrt (real n)) (llt cov0)"
  have l: "is_mat n n ?l" using assms(3) by (rule is_mat_smult)
  have sz: "size_m mean0 = n" using assms(1) n by (simp add: size_m_def is_mat_rows is_mat_cols)
  have cv: "rows cov0 = n" "cols cov0 = n" using assms(2) n by (simp_all add: is_mat_rows is_mat_cols)
  from cubature_loop [OF assms(1) l assms(4) order_refl]
  obtain P where P: "for_loop [0..<n] (cubature_point_pair mean0 ?l n) points = Some P"
      "is_mat (2 * n) n P"
      "\<forall>i<n. P ! i = map (\<lambda>j. mean0 ! j ! 0 + ?l ! j ! i) [0..<n]
                      \<and> P ! (n + i) = map (\<lambda>j. mean0 ! j ! 0 - ?l ! j ! i) [0..<n]"
    by blast
  have c: "computeCubaturePoints llt mean0 cov0 points = Some P"
    using P(1) sz cv by (simp add: computeCubaturePoints_def Let_def)
  have lij: "?l ! j ! i = sqrt (real n) * llt cov0 ! j ! i" if "i < n" "j < n" for i j
  proof -
    have "length (llt cov0) = n" using assms(3) by (simp add: is_mat_def)
    moreover have "length (llt cov0 ! j) = n" using assms(3) that(2) by (rule is_mat_nth)
    ultimately show ?thesis using that by (simp add: smult_def)
  qed
  have e: "\<forall>i<n. \<forall>j<n. P ! i ! j = mean0 ! j ! 0 + sqrt (real n) * llt cov0 ! j ! i
                            \<and> P ! (n + i) ! j = mean0 ! j ! 0 - sqrt (real n) * llt cov0 ! j ! i"
    using P(3) lij by simp
  show ?thesis using c P(2) e by blast
qed

lemma cubature_points_mean:
  assumes "is_mat n 1 mean0" "is_mat (2 * n) n P" "0 < n"
    and e: "\<forall>i<n. \<forall>j<n. P ! i ! j = mean0 ! j ! 0 + d j i \<and> P ! (n + i) ! j = mean0 ! j ! 0 - d j i"
  shows "weighted_mean (2 * n) (replicate (2 * n) [1 / real (2 * n)]) P (Zero n 1) = Some mean0"
proof -
  have n: "0 < n" by fact
  have "weighted_mean (2 * n) (replicate (2 * n) [1 / real (2 * n)]) P (Zero n 1)
        = Some (map (\<lambda>j. [sum_list (map (\<lambda>i. (1 / real (2 * n)) * P ! i ! j) [0..<2 * n])]) [0..<n])"
    unfolding weighted_mean_def using weighted_mean_loop [OF assms(2) order_refl n] .
  also have "map (\<lambda>j. [sum_list (map (\<lambda>i. (1 / real (2 * n)) * P ! i ! j) [0..<2 * n])]) [0..<n]
        = map (\<lambda>j. [mean0 ! j ! 0]) [0..<n]"
  proof (rule map_cong)
    fix j assume "j \<in> set [0..<n]"
    then have j: "j < n" by simp
    have "sum_list (map (\<lambda>i. (1 / real (2 * n)) * (\<lambda>i. P ! i ! j) i) [0..<2 * n]) = mean0 ! j ! 0"
      by (rule cubature_sum [OF n, where d = "\<lambda>i. d j i"]) (use e j in simp)
    then show "[sum_list (map (\<lambda>i. (1 / real (2 * n)) * P ! i ! j) [0..<2 * n])] = [mean0 ! j ! 0]"
      by simp
  qed simp
  also have "\<dots> = mean0" using assms(1) by (rule column_eq)
  finally show ?thesis .
qed

lemma predict_kalman_gain:
  "predict llt f u st = Some st' \<Longrightarrow> kalman_gain st' = kalman_gain st"
  by (auto simp: predict_def Let_def bind_eq_Some_conv)

lemma predict_all_kalman_gain:
  "predict_all llt f us st = Some st' \<Longrightarrow> kalman_gain st' = kalman_gain st"
proof (induction us arbitrary: st)
  case Nil
  then show ?case by simp
next
  case (Cons u us)
  then obtain st1 where s: "predict llt f u st = Some st1" "predict_all llt f us st1 = Some st'"
    by (auto split: option.splits)
  then show ?case using Cons.IH [OF s(2)] predict_kalman_gain [OF s(1)] by simp
qed

lemma computeCubaturePoints_llt_cong:
  "llt c = llt' c \<Longrightarrow> computeCubaturePoints llt m0 c p = computeCubaturePoints llt' m0 c p"
  by (simp add: computeCubaturePoints_def Let_def cong: if_cong)

lemma llt_column_length: "length (llt_column k d m) = length m"
  by (simp add: llt_column_def)

lemma llt_inplace_length: "length (fst (llt_inplace fuel k m)) = length m"
  by (induction fuel arbitrary: k m) (simp_all add: Let_def llt_column_length)

lemma eigen_llt_is_mat: "is_mat (length a) (length a) (eigen_llt a)"
  by (simp add: eigen_llt_def matrixL_def is_mat_def list_all_length llt_inplace_length)

lemma for_loop_invariant:
  assumes "for_loop xs body s = Some s'" "I s"
    and "\<And>i a b. I a \<Longrightarrow> body i a = Some b \<Longrightarrow> I b"
  shows "I s'"
  using assms(1,2)
proof (induction xs arbitrary: s)
  case Nil
  then show ?case by simp
next
  case (Cons x xs)
  then obtain s1 where s1: "body x s = Some s1" "for_loop xs body s1 = Some s'"
    by (auto split: option.splits)
  have "I s1" using Cons.prems(2) s1(1) by (rule assms(3))
  then show ?case using Cons.IH s1(2) by blast
qed

lemma add_m_rows: "add_m a b = Some c \<Longrightarrow> rows c = rows a"
  by (auto simp: add_m_def rows_def split: if_splits)

lemma sub_m_rows_eq: "sub_m a b = Some c \<Longrightarrow> rows a = rows b"
  by (auto simp: sub_m_def split: if_splits)

lemma mul_m_rows: "mul_m a b = Some c \<Longrightarrow> rows c = rows a"
  by (auto simp: mul_m_def rows_def split: if_splits)

lemma weighted_outer_rows:
  assumes "weighted_outer s w l r init = Some c"
  shows "rows c = rows init"
proof -
  have "rows c = rows init"
  proof (rule for_loop_invariant [where I = "\<lambda>a. rows a = rows init"])
    show "for_loop [0..<s]
       (\<lambda>i acc. do {
          wi \<leftarrow> coeff w i;
          a \<leftarrow> row i l;
          b \<leftarrow> row i r;
          p \<leftarrow> mul_m (smult wi (transpose_m a)) b;
          add_m acc p }) init = Some c"
      using assms by (simp add: weighted_outer_def)
  next
    show "rows init = rows init" by simp
  next
    fix i a b
    assume "rows a = rows init"
      and "do { wi \<leftarrow> coeff w i;
          x \<leftarrow> row i l;
          y \<leftarrow> row i r;
          p \<leftarrow> mul_m (smult wi (transpose_m x)) y;
          add_m a p } = Some b"
    then show "rows b = rows init"
      by (auto simp: bind_eq_Some_conv dest: add_m_rows)
  qed
  then show ?thesis .
qed

lemma weighted_mean_rows:
  assumes "weighted_mean s w p init = Some c"
  shows "rows c = rows init"
proof (rule for_loop_invariant [where I = "\<lambda>a. rows a = rows init"])
  show "for_loop [0..<s]
       (\<lambda>i acc. do {
          wi \<leftarrow> coeff w i;
          r \<leftarrow> row i p;
          add_m acc (transpose_m (smult wi r)) }) init = Some c"
    using assms by (simp add: weighted_mean_def)
next
  show "rows init = rows init" by simp
next
  fix i a b
  assume "rows a = rows init"
    and "do { wi \<leftarrow> coeff w i;
          r \<leftarrow> row i p;
          add_m a (transpose_m (smult wi r)) } = Some b"
  then show "rows b = rows init"
    by (auto simp: bind_eq_Some_conv dest: add_m_rows)
qed

lemma add_m_cols: "add_m a b = Some c \<Longrightarrow> 0 < rows a \<Longrightarrow> cols c = cols a"
  by (cases a; cases b) (auto simp: add_m_def rows_def cols_def split: if_splits)

lemma set_block_rows: "set_block i0 j0 p q m b = Some c \<Longrightarrow> rows c = rows m"
  by (auto simp: set_block_def rows_def split: if_splits)

section \<open>The cubature point generator\<close>

text \<open>With the identity for the rounding, the functions of the section on rounding are the
  functions in exact arithmetic, and nothing is rounded.\<close>

lemma rnd_m_id: "rnd_m (\<lambda>x. x) m = m"
  by (simp add: rnd_m_def)

lemma computeCubaturePoints_rounded_id:
  "computeCubaturePoints_rounded (\<lambda>x. x) llt mean0 cov0 points
     = computeCubaturePoints llt mean0 cov0 points"
proof -
  have "cubature_point_pair_rounded (\<lambda>x. x) = cubature_point_pair"
    by (intro ext) (simp add: cubature_point_pair_rounded_def cubature_point_pair_def rnd_m_id)
  then show ?thesis
    by (simp add: computeCubaturePoints_rounded_def computeCubaturePoints_def rnd_m_id Let_def
        cong: if_cong)
qed

lemma weighted_mean_rounded_id:
  "weighted_mean_rounded (\<lambda>x. x) s w points init = weighted_mean s w points init"
  by (simp add: weighted_mean_rounded_def weighted_mean_def rnd_m_id)

lemma stored_weights_id:
  "stored_weights (\<lambda>x. x) (2 * n) = weights (CubatureKalmanFilterX n m k q r mean0 cov0)"
  by (simp add: stored_weights_def CubatureKalmanFilterX_def Let_def)

lemma unrounded_id: "unrounded (\<lambda>x. x) n mean0 L P"
  by (simp add: unrounded_def Let_def list_all_length)




















text \<open>
  C7. The specification asks that a covariance whose Cholesky factorisation fails makes the
  operation fail with a "non-positive-definite covariance" error before sampling. The
  source never reads the outcome of the factorisation and has no error to raise: on the
  1-by-1 covariance \<open>-1\<close> the factorisation records a numerical issue, the generator still
  returns the points \<open>-1\<close> and \<open>1\<close>, and \<open>predict\<close> completes.
\<close>

theorem factorization_failure_not_reported:
  "llt_info [[- 1]] = NumericalIssue
   \<and> computeCubaturePoints eigen_llt [[0]] [[- 1]] (Zero 2 1) = Some [[- 1], [1]]
   \<and> predict eigen_llt (\<lambda>x u. x) [] (CubatureKalmanFilterX 1 0 1 [[0]] [[1]] [[0]] [[- 1]]) \<noteq> None"
  by (simp add: mat_defs ckf_defs llt_defs eval_nat_numeral)

text \<open>
  C7, as the source behaves. When the factorisation of the covariance fails, nothing is
  reported: for a mean of size \<open>n\<close>, an n-by-n covariance and a buffer of 2n rows the
  generator completes and samples the points \<open>mean + col i (L * sqrt n)\<close> and
  \<open>mean - col i (L * sqrt n)\<close> from the matrix \<open>L\<close> that the failed factorisation left.
\<close>

theorem computeCubaturePoints_ignores_llt_info:
  assumes "llt_info cov0 = NumericalIssue"
    and "is_mat n 1 mean0" "is_mat n n cov0" "is_mat (2 * n) n points"
  shows "\<exists>P. computeCubaturePoints eigen_llt mean0 cov0 points = Some P
           \<and> (\<forall>i<n. \<forall>j<n. P ! i ! j = mean0 ! j ! 0 + sqrt (real n) * eigen_llt cov0 ! j ! i
                            \<and> P ! (n + i) ! j = mean0 ! j ! 0 - sqrt (real n) * eigen_llt cov0 ! j ! i)"
proof -
  have len: "length cov0 = n" using assms(3) by (simp add: is_mat_def)
  have "n \<noteq> 0" using assms(1) len by (auto simp: llt_info_def)
  then have n: "0 < n" by simp
  have l: "is_mat n n (eigen_llt cov0)" using eigen_llt_is_mat [of cov0] len by simp
  from cubature_points_general [where llt = eigen_llt and ?cov0.0 = cov0, OF assms(2) assms(3) l assms(4) n]
  show ?thesis by blast
qed

theorem computeCubaturePoints_ignores_llt_info_witness:
  "llt_info [[- 1]] = NumericalIssue \<and> is_mat 1 1 [[0]] \<and> is_mat 1 1 [[- 1]] \<and> is_mat (2 * 1) 1 (Zero 2 1)
   \<and> (\<exists>P. computeCubaturePoints eigen_llt [[0]] [[- 1]] (Zero 2 1) = Some P
           \<and> (\<forall>i<1. \<forall>j<1. P ! i ! j = [[0]] ! j ! 0 + sqrt (real 1) * eigen_llt [[- 1]] ! j ! i
                            \<and> P ! (1 + i) ! j = [[0]] ! j ! 0 - sqrt (real 1) * eigen_llt [[- 1]] ! j ! i))"
proof -
  have h1: "llt_info [[- 1]] = NumericalIssue" by (simp add: llt_defs)
  have h2: "is_mat 1 1 [[0]]" by (simp add: is_mat_def)
  have h3: "is_mat 1 1 [[- 1]]" by (simp add: is_mat_def)
  have h4: "is_mat (2 * 1) 1 (Zero 2 1)" by (simp add: is_mat_def Zero_def eval_nat_numeral)
  from computeCubaturePoints_ignores_llt_info [OF h1 h2 h3 h4]
  show ?thesis using h1 h2 h3 h4 by (intro conjI)
qed

section \<open>The constructor\<close>

text \<open>
  C2. The specification asks that every extended weight is \<open>1 / (2 (N + K))\<close> and that the
  \<open>2 (N + K)\<close> extended weights sum to 1. The constructor computes
  \<open>1.0 / 2 * (N + K)\<close>, which is \<open>(N + K) / 2\<close>, for every \<open>N\<close> and \<open>K\<close>. With
  \<open>N = K = 1\<close> each of the four weights is 1, not \<open>1 / 4\<close>, and their sum is 4.
\<close>

theorem ext_weights_example:
  "ext_weights (CubatureKalmanFilterX n m k q r mean0 cov0)
     = replicate (2 * (n + k)) [real (n + k) / 2]
   \<and> ext_weights (CubatureKalmanFilterX 1 1 1 q r mean0 cov0) = [[1], [1], [1], [1]]
   \<and> coeff (ext_weights (CubatureKalmanFilterX 1 1 1 q r mean0 cov0)) 0 = Some 1
   \<and> coeff (ext_weights (CubatureKalmanFilterX 1 1 1 q r mean0 cov0)) 0
       \<noteq> Some (1 / (2 * real (1 + 1)))
   \<and> sum_list (concat (ext_weights (CubatureKalmanFilterX 1 1 1 q r mean0 cov0))) = 4"
  by (simp add: ext_weights_constructor mat_defs eval_nat_numeral)

text \<open>
  C10. From construction until the first \<open>correct\<close>, the Kalman gain is the empty matrix
  with no rows and no columns: the constructor leaves it empty and \<open>predict\<close> does not
  write it, so after every sequence of \<open>predict\<close> calls that complete \<open>getKalmanGain\<close>
  returns the empty matrix.
\<close>

theorem kalman_gain_empty_until_correct:
  assumes "predict_all llt f us (CubatureKalmanFilterX n m k q r mean0 cov0) = Some st"
  shows "getKalmanGain st = [] \<and> rows (getKalmanGain st) = 0 \<and> cols (getKalmanGain st) = 0"
proof -
  have "kalman_gain st = kalman_gain (CubatureKalmanFilterX n m k q r mean0 cov0)"
    using assms by (rule predict_all_kalman_gain)
  then show ?thesis
    by (simp add: getKalmanGain_def CubatureKalmanFilterX_def Let_def rows_def cols_def)
qed

lemma predict_all_example:
  "predict_all eigen_llt (\<lambda>x u. [[x ! 0 ! 0 + u ! 0 ! 0]]) [[[1]], [[1]]]
     (CubatureKalmanFilterX 1 1 1 [[0]] [[1]] [[0]] [[4]])
   = Some \<lparr> N = 1, M = 1, K = 1, S = 2, mean = [[2]], cov = [[4]], process_noise = [[0]],
            measurement_noise = [[1]], weights = [[1 / 2], [1 / 2]],
            cubature_points = [[4], [0]], ext_weights = [[1], [1], [1], [1]],
            ext_cubature_points = [[0, 0], [0, 0], [0, 0], [0, 0]],
            expected_measurements = [[0], [0], [0], [0]], kalman_gain = [] \<rparr>"
  by (simp add: mat_defs ckf_defs llt_defs eval_nat_numeral)

theorem kalman_gain_empty_until_correct_witness:
  "predict_all eigen_llt (\<lambda>x u. [[x ! 0 ! 0 + u ! 0 ! 0]]) [[[1]], [[1]]]
     (CubatureKalmanFilterX 1 1 1 [[0]] [[1]] [[0]] [[4]])
   = Some \<lparr> N = 1, M = 1, K = 1, S = 2, mean = [[2]], cov = [[4]], process_noise = [[0]],
            measurement_noise = [[1]], weights = [[1 / 2], [1 / 2]],
            cubature_points = [[4], [0]], ext_weights = [[1], [1], [1], [1]],
            ext_cubature_points = [[0, 0], [0, 0], [0, 0], [0, 0]],
            expected_measurements = [[0], [0], [0], [0]], kalman_gain = [] \<rparr>
   \<and> getKalmanGain \<lparr> N = 1, M = 1, K = 1, S = 2, mean = [[2]], cov = [[4]], process_noise = [[0]],
            measurement_noise = [[1]], weights = [[1 / 2], [1 / 2]],
            cubature_points = [[4], [0]], ext_weights = [[1], [1], [1], [1]],
            ext_cubature_points = [[0, 0], [0, 0], [0, 0], [0, 0]],
            expected_measurements = [[0], [0], [0], [0]], kalman_gain = [] \<rparr> = []"
  using kalman_gain_empty_until_correct [OF predict_all_example] predict_all_example
  by (intro conjI) simp_all

section \<open>The regulariser\<close>

text \<open>
  C9. \<open>ensurePositiveFinite\<close> returns its argument unchanged for every matrix. Hence
  \<open>predict\<close> factors the covariance of the filter as it is, and \<open>correct\<close> (which reads the
  factorisation only in \<open>correct_sample\<close>) factors the augmented covariance as it is
  assembled: replacing the factorisation by any other that agrees on that one matrix
  changes nothing.
\<close>

theorem ensurePositiveFinite_unchanged:
  "ensurePositiveFinite c = c
   \<and> (llt (cov st) = llt' (cov st) \<longrightarrow> predict llt f u st = predict llt' f u st)
   \<and> (\<forall>C. correct_ext_cov_pred st = Some C \<longrightarrow> llt C = llt' C
          \<longrightarrow> correct_sample llt h st = correct_sample llt' h st)"
proof (intro conjI impI allI)
  show "ensurePositiveFinite c = c" by (simp add: ensurePositiveFinite_def)
next
  assume "llt (cov st) = llt' (cov st)"
  then show "predict llt f u st = predict llt' f u st"
    by (simp add: predict_def predict_points_def ensurePositiveFinite_def Let_def
        computeCubaturePoints_llt_cong [of llt "cov st" llt'])
next
  fix C assume "correct_ext_cov_pred st = Some C" "llt C = llt' C"
  then show "correct_sample llt h st = correct_sample llt' h st"
    by (simp add: correct_sample_def ensurePositiveFinite_def Let_def
        computeCubaturePoints_llt_cong [of llt C llt'])
qed

theorem ensurePositiveFinite_unchanged_witness:
  "ensurePositiveFinite [[- 1]] = [[- 1]]
   \<and> eigen_llt (cov (CubatureKalmanFilterX 1 1 1 [[0]] [[1]] [[1]] [[4]])) = [[2]]
   \<and> predict eigen_llt (\<lambda>x u. [[x ! 0 ! 0 + u ! 0 ! 0]]) [[1]]
        (CubatureKalmanFilterX 1 1 1 [[0]] [[1]] [[1]] [[4]])
      = predict (\<lambda>a. [[2]]) (\<lambda>x u. [[x ! 0 ! 0 + u ! 0 ! 0]]) [[1]]
        (CubatureKalmanFilterX 1 1 1 [[0]] [[1]] [[1]] [[4]])
   \<and> correct_ext_cov_pred (CubatureKalmanFilterX 1 1 1 [[0]] [[1]] [[1]] [[4]]) = Some [[4, 0], [0, 1]]
   \<and> eigen_llt [[4, 0], [0, 1]] = [[2, 0], [0, 1]]
   \<and> correct_sample eigen_llt (\<lambda>x. x) (CubatureKalmanFilterX 1 1 1 [[0]] [[1]] [[1]] [[4]])
      = correct_sample (\<lambda>a. [[2, 0], [0, 1]]) (\<lambda>x. x) (CubatureKalmanFilterX 1 1 1 [[0]] [[1]] [[1]] [[4]])"
proof -
  let ?st = "CubatureKalmanFilterX 1 1 1 [[0]] [[1]] [[1]] [[4]]"
  have h1: "eigen_llt (cov ?st) = [[2]]"
    by (simp add: mat_defs ckf_defs llt_defs eval_nat_numeral)
  have h2: "correct_ext_cov_pred ?st = Some [[4, 0], [0, 1]]"
    by (simp add: mat_defs ckf_defs eval_nat_numeral)
  have h3: "eigen_llt [[4, 0], [0, 1]] = [[2, 0], [0, 1]]"
    by (simp add: mat_defs llt_defs eval_nat_numeral)
  note t1 = ensurePositiveFinite_unchanged [where c = "[[- 1]]" and st = ?st and llt = eigen_llt
      and llt' = "\<lambda>a. [[2]]" and f = "\<lambda>x u. [[x ! 0 ! 0 + u ! 0 ! 0]]" and u = "[[1]]"]
  note t2 = ensurePositiveFinite_unchanged [where c = "[[- 1]]" and st = ?st and llt = eigen_llt
      and llt' = "\<lambda>a. [[2, 0], [0, 1]]" and h = "\<lambda>x. x"]
  have a: "ensurePositiveFinite [[- 1]] = [[- 1]]" using t1 by blast
  have b: "predict eigen_llt (\<lambda>x u. [[x ! 0 ! 0 + u ! 0 ! 0]]) [[1]] ?st
      = predict (\<lambda>a. [[2]]) (\<lambda>x u. [[x ! 0 ! 0 + u ! 0 ! 0]]) [[1]] ?st"
    using t1 h1 by blast
  have c: "correct_sample eigen_llt (\<lambda>x. x) ?st = correct_sample (\<lambda>a. [[2, 0], [0, 1]]) (\<lambda>x. x) ?st"
    using t2 h2 h3 by blast
  show ?thesis using a b c h1 h2 h3 by (intro conjI)
qed

section \<open>The recombination of \<open>predict\<close>\<close>

text \<open>
  Whenever \<open>predict\<close> completes, the mean has at most one coefficient: the inner product
  subtracted from the covariance sum is 1-by-1, and the sum has as many rows as the mean
  has coefficients. For one coefficient the inner and the outer product are the same, and
  the scenario of the specification with one state dimension (\<open>f (x, u) = x + u\<close>,
  \<open>Q = 0.01\<close>, mean 0, covariance 1, control 1) gives the mean 1 and the covariance 1.01.
  \<open>predict\<close> writes neither vector of weights.
\<close>

lemma weighted_mean_cols:
  assumes "weighted_mean s w p init = Some c" "0 < rows init"
  shows "cols c = cols init"
proof -
  have "rows c = rows init \<and> cols c = cols init"
  proof (rule for_loop_invariant [where I = "\<lambda>a. rows a = rows init \<and> cols a = cols init"])
    show "for_loop [0..<s]
       (\<lambda>i acc. do {
          wi \<leftarrow> coeff w i;
          r \<leftarrow> row i p;
          add_m acc (transpose_m (smult wi r)) }) init = Some c"
      using assms by (simp add: weighted_mean_def)
  next
    show "rows init = rows init \<and> cols init = cols init" by simp
  next
    fix i a b
    assume "rows a = rows init \<and> cols a = cols init"
      and "do { wi \<leftarrow> coeff w i;
          r \<leftarrow> row i p;
          add_m a (transpose_m (smult wi r)) } = Some b"
    then show "rows b = rows init \<and> cols b = cols init"
      using assms(2) by (auto simp: bind_eq_Some_conv dest: add_m_rows add_m_cols)
  qed
  then show ?thesis by simp
qed

lemma predict_cov_rows:
  assumes "predict_cov s w pts mean_pred cov1 q = Some c"
  shows "rows cov1 = cols mean_pred"
proof -
  from assms(1) obtain c0 mm where c0: "weighted_outer s w pts pts (Zero (rows cov1) (cols cov1)) = Some c0"
    and mm: "mul_m (transpose_m mean_pred) mean_pred = Some mm"
    and sb: "sub_m c0 mm \<noteq> None"
    by (auto simp: predict_cov_def bind_eq_Some_conv)
  have "rows c0 = rows cov1" using weighted_outer_rows [OF c0] by (simp add: rows_def Zero_def)
  moreover have "rows mm = cols mean_pred"
    using mul_m_rows [OF mm] by (simp add: transpose_m_def rows_def)
  moreover have "rows c0 = rows mm" using sb by (auto dest: sub_m_rows_eq)
  ultimately show ?thesis by simp
qed

lemma computeCubaturePoints_rows:
  "computeCubaturePoints llt m0 c p = Some P \<Longrightarrow> rows c = size_m m0"
  by (simp add: computeCubaturePoints_def Let_def split: if_splits)

lemma predict_completes_only_dim_one:
  assumes "predict llt f u st = Some st'"
  shows "size_m (mean st) \<le> 1"
proof (cases "size_m (mean st) = 0")
  case True
  then show ?thesis by simp
next
  case False
  let ?n = "size_m (mean st)"
  from assms obtain pts mean_pred c
    where pts: "predict_points llt f u (cov st) st = Some pts"
      and mp: "weighted_mean (S st) (weights st) pts (Zero ?n 1) = Some mean_pred"
      and pc: "predict_cov (S st) (weights st) pts mean_pred (cov st) (process_noise st) = Some c"
    by (auto simp: predict_def ensurePositiveFinite_def Let_def bind_eq_Some_conv)
  from pts obtain p0 where "computeCubaturePoints llt (mean st) (cov st) (cubature_points st) = Some p0"
    by (auto simp: predict_points_def bind_eq_Some_conv)
  then have r: "rows (cov st) = ?n" by (rule computeCubaturePoints_rows)
  have z: "0 < rows (Zero ?n 1)" "cols (Zero ?n 1) = 1"
    using False by (cases ?n; simp add: rows_def cols_def Zero_def)+
  have "cols mean_pred = 1" using weighted_mean_cols [OF mp z(1)] z(2) by simp
  then have "rows (cov st) = 1" using predict_cov_rows [OF pc] by simp
  then show ?thesis using r by simp
qed

lemma inner_eq_outer_dim_one:
  "mul_m (transpose_m [[x]]) [[x]] = mul_m [[x]] (transpose_m [[x]])"
  by (simp add: mat_defs)

lemma predict_scenario:
  "predict eigen_llt (\<lambda>x u. [[x ! 0 ! 0 + u ! 0 ! 0]]) [[1]]
     (CubatureKalmanFilterX 1 1 1 [[1 / 100]] [[1 / 10]] [[0]] [[1]])
   = Some \<lparr> N = 1, M = 1, K = 1, S = 2, mean = [[1]], cov = [[101 / 100]],
            process_noise = [[1 / 100]], measurement_noise = [[1 / 10]],
            weights = [[1 / 2], [1 / 2]], cubature_points = [[2], [0]],
            ext_weights = [[1], [1], [1], [1]],
            ext_cubature_points = [[0, 0], [0, 0], [0, 0], [0, 0]],
            expected_measurements = [[0], [0], [0], [0]], kalman_gain = [] \<rparr>"
  by (simp add: mat_defs ckf_defs llt_defs eval_nat_numeral)

lemma predict_weights:
  "predict llt f u st = Some st' \<Longrightarrow> weights st' = weights st \<and> ext_weights st' = ext_weights st"
  by (auto simp: predict_def Let_def bind_eq_Some_conv)

text \<open>
  C4. The specification asks for the predicted covariance
  \<open>sum weight[i] * point[i] * point[i]\<^sup>T - mean_pred * mean_pred\<^sup>T + Q\<close>. The source
  subtracts \<^verbatim>\<open>mean_pred.transpose() * mean_pred\<close>; \<^verbatim>\<open>mean_pred\<close> is a column vector, so
  this is the 1-by-1 inner product. For a state of dimension 2 (mean \<open>(1, 2)\<close>, identity
  covariance, \<open>f\<close> the identity, \<open>Q = 0\<close>) the points and the predicted mean are
  computed, the inner product is the 1-by-1 matrix \<open>5\<close>, its subtraction from the 2-by-2
  sum fails the size assertion, and \<open>predict\<close> does not complete; the formula of the
  specification gives the identity matrix.
\<close>

theorem predict_state_dim_two:
  "predict_points eigen_llt (\<lambda>x u. x) [] [[1, 0], [0, 1]]
       (CubatureKalmanFilterX 2 0 1 (Zero 2 2) [[1]] [[1], [2]] [[1, 0], [0, 1]])
     = Some [[1 + sqrt 2, 2], [1, 2 + sqrt 2], [1 - sqrt 2, 2], [1, 2 - sqrt 2]]
   \<and> weighted_mean 4 [[1 / 4], [1 / 4], [1 / 4], [1 / 4]]
       [[1 + sqrt 2, 2], [1, 2 + sqrt 2], [1 - sqrt 2, 2], [1, 2 - sqrt 2]] (Zero 2 1)
     = Some [[1], [2]]
   \<and> mul_m (transpose_m [[1], [2]]) [[1], [2]] = Some [[5]]
   \<and> predict_cov 4 [[1 / 4], [1 / 4], [1 / 4], [1 / 4]]
       [[1 + sqrt 2, 2], [1, 2 + sqrt 2], [1 - sqrt 2, 2], [1, 2 - sqrt 2]] [[1], [2]]
       [[1, 0], [0, 1]] (Zero 2 2) = None
   \<and> spec_predicted_cov 4 [[1 / 4], [1 / 4], [1 / 4], [1 / 4]]
       [[1 + sqrt 2, 2], [1, 2 + sqrt 2], [1 - sqrt 2, 2], [1, 2 - sqrt 2]] [[1], [2]] (Zero 2 2)
     = Some [[1, 0], [0, 1]]
   \<and> predict eigen_llt (\<lambda>x u. x) []
       (CubatureKalmanFilterX 2 0 1 (Zero 2 2) [[1]] [[1], [2]] [[1, 0], [0, 1]]) = None"
  by (simp add: mat_defs ckf_defs llt_defs eval_nat_numeral algebra_simps add_divide_distrib
      diff_divide_distrib)

section \<open>The measurement update\<close>

text \<open>
  With at least one measurement dimension \<open>correct\<close> never completes: the cross-covariance
  is allocated with \<open>N\<close> rows, and the product subtracted from it has \<open>N + K\<close> rows.
\<close>

lemma correct_ext_mean_pred_rows:
  "correct_ext_mean_pred st = Some a \<Longrightarrow> rows a = N st + K st"
  by (auto simp: correct_ext_mean_pred_def set_topLeftCorner_def Zero_def rows_def
      dest!: set_block_rows)

lemma correct_cross_cov_None:
  assumes "rows a = n + k" "0 < k"
  shows "correct_cross_cov n k s w p e a z = None"
proof (rule ccontr)
  assume "correct_cross_cov n k s w p e a z \<noteq> None"
  then obtain c t r where c: "weighted_outer s w p e (Zero n k) = Some c"
    and t: "mul_m a z = Some t" and r: "sub_m c t = Some r"
    by (auto simp: correct_cross_cov_def bind_eq_Some_conv)
  have "rows c = n" using weighted_outer_rows [OF c] by (simp add: rows_def Zero_def)
  moreover have "rows t = n + k" using mul_m_rows [OF t] assms(1) by simp
  moreover have "rows c = rows t" using r by (rule sub_m_rows_eq)
  ultimately show False using assms(2) by simp
qed

lemma correct_never_completes:
  assumes "0 < K st"
  shows "correct llt lu h mean_pred measurement st = None"
proof (cases "correct_sample llt h st")
  case None
  then show ?thesis by (simp add: correct_def)
next
  case (Some x)
  then obtain a c p e z where x: "correct_sample llt h st = Some (a, c, p, e, z)"
    by (cases x) auto
  then have "correct_ext_mean_pred st = Some a"
    by (auto simp: correct_sample_def bind_eq_Some_conv Let_def)
  then have "rows a = N st + K st" by (rule correct_ext_mean_pred_rows)
  then have "correct_cross_cov (N st) (K st) (S st) (ext_weights st) p e a z = None"
    using assms by (rule correct_cross_cov_None)
  then show ?thesis using x by (simp add: correct_def)
qed

text \<open>
  C5. The specification asks for the expected measurement covariance
  \<open>sum ext_weight[i] * z[i] * z[i]\<^sup>T - mean_z * mean_z\<^sup>T + R\<close>. The source subtracts
  \<^verbatim>\<open>expected_measurement_mean.transpose() * mean_pred\<close>. For \<open>N = K = 2\<close> (mean
  \<open>(1, 2)\<close>, identity covariance, \<open>R\<close> the identity, \<open>h\<close> the identity) the augmented points,
  the expected measurements and their mean are computed; then, whatever \<open>mean_pred\<close> is, the
  product has one row and its subtraction from the 2-by-2 sum fails, where the formula of
  the specification has a value.
\<close>

theorem expected_measurement_cov_example:
  "correct_sample eigen_llt (\<lambda>x. x) (CubatureKalmanFilterX 2 0 2 (Zero 2 2) [[1, 0], [0, 1]] [[1], [2]] [[1, 0], [0, 1]])
   = Some ([[1], [2], [0], [0]],
           [[1, 0, 0, 0], [0, 1, 0, 0], [0, 0, 1, 0], [0, 0, 0, 1]],
           [[3, 2, 0, 0], [1, 4, 0, 0], [1, 2, 2, 0], [1, 2, 0, 2],
           [- 1, 2, 0, 0], [1, 0, 0, 0], [1, 2, - 2, 0], [1, 2, 0, - 2]],
           [[3, 2], [1, 4], [3, 2], [1, 4], [- 1, 2], [1, 0], [- 1, 2], [1, 0]],
           [[16], [32]])
   \<and> ext_weights (CubatureKalmanFilterX 2 0 2 (Zero 2 2) [[1, 0], [0, 1]] [[1], [2]] [[1, 0], [0, 1]]) = replicate 8 [2]
   \<and> correct_expected_measurement_cov 2 (replicate 8 [2])
         [[3, 2, 0, 0], [1, 4, 0, 0], [1, 2, 2, 0], [1, 2, 0, 2],
          [- 1, 2, 0, 0], [1, 0, 0, 0], [1, 2, - 2, 0], [1, 2, 0, - 2]]
         [[3, 2], [1, 4], [3, 2], [1, 4], [- 1, 2], [1, 0], [- 1, 2], [1, 0]]
         [[16], [32]] mean_pred [[1, 0], [0, 1]] = None
   \<and> spec_expected_measurement_cov 2 (replicate 8 [2])
         [[3, 2, 0, 0], [1, 4, 0, 0], [1, 2, 2, 0], [1, 2, 0, 2],
          [- 1, 2, 0, 0], [1, 0, 0, 0], [1, 2, - 2, 0], [1, 2, 0, - 2]]
         [[3, 2], [1, 4], [3, 2], [1, 4], [- 1, 2], [1, 0], [- 1, 2], [1, 0]]
         [[16], [32]] [[1, 0], [0, 1]] = Some [[- 207, - 480], [- 480, - 927]]"
  by (simp add: mat_defs ckf_defs llt_defs eval_nat_numeral split: if_splits)

text \<open>
  C6. The specification asks for the cross-covariance
  \<open>sum ext_weight[i] * x[i] * z[i]\<^sup>T - mean_x * mean_z\<^sup>T\<close> over all \<open>2 (N + K)\<close> augmented
  points. The source sums over the first \<open>S = 2 N\<close> points only, adds each
  (N + K)-by-K product to an N-by-K matrix and subtracts
  \<^verbatim>\<open>ext_mean_pred * expected_measurement_mean\<close> without a transposition. Run on the points
  and expected measurements that the filter with \<open>N = K = 2\<close> of C5 samples, the first
  addition fails the size assertion, where the formula of the specification has a value.
\<close>

theorem cross_cov_example:
  "do { (a, c, p, e, z) \<leftarrow> correct_sample eigen_llt (\<lambda>x. x) (CubatureKalmanFilterX 2 0 2 (Zero 2 2) [[1, 0], [0, 1]] [[1], [2]] [[1, 0], [0, 1]]);
        correct_cross_cov 2 2 (S (CubatureKalmanFilterX 2 0 2 (Zero 2 2) [[1, 0], [0, 1]] [[1], [2]] [[1, 0], [0, 1]]))
          (ext_weights (CubatureKalmanFilterX 2 0 2 (Zero 2 2) [[1, 0], [0, 1]] [[1], [2]] [[1, 0], [0, 1]])) p e a z } = None
   \<and> do { (a, c, p, e, z) \<leftarrow> correct_sample eigen_llt (\<lambda>x. x) (CubatureKalmanFilterX 2 0 2 (Zero 2 2) [[1, 0], [0, 1]] [[1], [2]] [[1, 0], [0, 1]]);
          spec_cross_cov 2 2
            (ext_weights (CubatureKalmanFilterX 2 0 2 (Zero 2 2) [[1, 0], [0, 1]] [[1], [2]] [[1, 0], [0, 1]])) p e a z }
       = Some [[16, 0], [0, 16], [16, 0], [0, 16]]
   \<and> weighted_outer 1 (replicate 8 [2]) [[3, 2, 0, 0]] [[3, 2]] (Zero 2 2) = None"
  by (simp add: mat_defs ckf_defs llt_defs eval_nat_numeral split: if_splits)

text \<open>
  C1. The specification asks for the gain \<open>cross_cov * (expected_measurement_cov)\<^sup>-\<^sup>1\<close>. The
  source multiplies the cross-covariance by its own inverse: for the cross-covariance
  \<open>2\<close> and the expected measurement covariance \<open>4\<close> it yields \<open>1\<close>, where the formula of the
  specification yields \<open>1 / 2\<close>. On the filter with \<open>N = K = 2\<close> of C5, \<open>correct\<close> does not
  reach the gain for any measurement.
\<close>

theorem kalman_gain_example:
  "correct_kalman_gain inverse_1x1 [[2]] = Some [[1]]
   \<and> spec_kalman_gain inverse_1x1 [[2]] [[4]] = Some [[1 / 2]]
   \<and> correct eigen_llt lu (\<lambda>x. x) mean_pred measurement (CubatureKalmanFilterX 2 0 2 (Zero 2 2) [[1, 0], [0, 1]] [[1], [2]] [[1, 0], [0, 1]]) = None"
  by (simp add: mat_defs ckf_defs llt_defs eval_nat_numeral split: if_splits)

text \<open>
  C8. The specification asks that a measurement equal to the expected measurement mean
  leaves the mean of the filter unchanged while the covariance is still reduced by
  \<open>gain * expected_measurement_cov * gain\<^sup>T\<close>. For \<open>N = K = 1\<close> (mean \<open>1\<close>, covariance \<open>1\<close>,
  \<open>R = 1\<close>, \<open>h\<close> the identity) the expected measurement mean computed by the source is \<open>4\<close>;
  \<open>correct\<close> called with the measurement \<open>4\<close> does not complete, whatever the inversion and
  \<open>mean_pred\<close> are, so no covariance update is applied.
\<close>

theorem correct_zero_innovation_example:
  "correct_sample eigen_llt (\<lambda>x. x) (CubatureKalmanFilterX 1 0 1 [[0]] [[1]] [[1]] [[1]])
   = Some ([[1], [0]], [[1, 0], [0, 1]],
           [[1 + sqrt 2, 0], [1, sqrt 2], [1 - sqrt 2, 0], [1, - sqrt 2]],
           [[1 + sqrt 2], [1 + sqrt 2], [1 - sqrt 2], [1 - sqrt 2]], [[4]])
   \<and> correct eigen_llt lu (\<lambda>x. x) mean_pred [[4]]
        (CubatureKalmanFilterX 1 0 1 [[0]] [[1]] [[1]] [[1]]) = None"
  by (simp add: mat_defs ckf_defs llt_defs eval_nat_numeral split: if_splits)

end
